theory Spec2Isabelle
  imports Complex_Main "HOL-Library.AList"
begin

section \<open>Numeric conventions\<close>

text \<open>
  Both programs compute with Python integers and Python floats. Integers are modelled
  by \<open>int\<close>. Floats are modelled by \<open>real\<close>: every float operation is taken to be
  exact, so rounding, overflow to infinity and NaN are outside this development.
  The exceptions that the arithmetic of the sources can raise are values of
  \<open>py_error\<close>, and a computation that may raise returns \<open>py_error + 'a\<close>.
\<close>

datatype py_error = ValueError | ZeroDivisionError | KeyError

text \<open>Python's \<open>int(v)\<close> on a float truncates toward zero.\<close>

definition py_int :: "real \<Rightarrow> int" where
  "py_int v = (if 0 \<le> v then \<lfloor>v\<rfloor> else \<lceil>v\<rceil>)"

text \<open>\<open>math.sqrt\<close> raises \<open>ValueError\<close> on a negative argument.\<close>

definition py_sqrt :: "real \<Rightarrow> py_error + real" where
  "py_sqrt v = (if v < 0 then Inl ValueError else Inr (sqrt v))"

text \<open>The operator \<open>/\<close> raises \<open>ZeroDivisionError\<close> on a zero divisor.\<close>

definition py_truediv :: "real \<Rightarrow> real \<Rightarrow> py_error + real" where
  "py_truediv a b = (if b = 0 then Inl ZeroDivisionError else Inr (a / b))"

text \<open>
  \<open>numpy.linspace(start, stop, num)\<close>: \<open>num\<close> evenly spaced samples, both end
  points included.
\<close>

definition linspace :: "real \<Rightarrow> real \<Rightarrow> nat \<Rightarrow> real list" where
  "linspace start stop num =
     map (\<lambda>i. start + real i * ((stop - start) / real (num - 1))) [0..<num]"

section \<open>Input events shared by the two programs\<close>

datatype key =
    K_e | K_a | K_b | K_g | K_SPACE | K_r
  | K_1 | K_2 | K_3 | K_4
  | K_UP | K_DOWN | K_LEFT | K_RIGHT
  | K_p | K_h
  | K_other

datatype event = QUIT | KEYDOWN key | OTHER_EVENT

section \<open>ele.py: Euclidean and affine planes\<close>

definition WIDTH :: int where "WIDTH = 900"
definition HEIGHT :: int where "HEIGHT = 600"

datatype GeometryMode = EUCLIDEAN | AFFINE | BOTH

text \<open>
  The fields of \<open>GeometryViz\<close> that the program changes after start-up. The toolkit
  handles (screen, clock, fonts) and the list \<open>parallel_lines\<close>, built once and never
  changed, are left out. Point coordinates are integers: the defaults are, and so is
  every position that \<open>to_math\<close> returns from pointer coordinates.
\<close>

type_synonym point = "int \<times> int"

record GeometryViz =
  mode :: GeometryMode
  show_grid :: bool
  animate :: bool
  time :: real
  points :: "(string \<times> point) list"
  dragging :: "string option"
  drag_offset :: "int \<times> int"
  pulse_phase :: real
  rotation_angle :: real

definition default_points :: "(string \<times> point) list" where
  "default_points =
     [(''A'', (-120, -80)), (''B'', (150, 120)), (''C'', (-80, 150)), (''D'', (120, -120))]"

text \<open>The state built by \<open>GeometryViz.__init__\<close>.\<close>

definition init :: GeometryViz where
  "init = \<lparr> mode = BOTH, show_grid = True, animate = True, time = 0,
            points = default_points, dragging = None, drag_offset = (0, 0),
            pulse_phase = 0, rotation_angle = 0 \<rparr>"

subsection \<open>Coordinate mapper\<close>

definition to_screen :: "real \<Rightarrow> real \<Rightarrow> int \<times> int" where
  "to_screen x y = (py_int (real_of_int WIDTH / 2 + x), py_int (real_of_int HEIGHT / 2 - y))"

definition to_math :: "int \<Rightarrow> int \<Rightarrow> int \<times> int" where
  "to_math screen_x screen_y = (screen_x - WIDTH div 2, HEIGHT div 2 - screen_y)"

subsection \<open>The point dictionary\<close>

text \<open>
  \<open>self.points\<close> is a dictionary from point names to coordinate pairs. Python
  dictionaries iterate in insertion order, and \<open>handle_mouse\<close> depends on that order,
  so the dictionary is an association list. \<open>self.points[name]\<close> raises \<open>KeyError\<close>
  on a missing key; \<open>self.points[name] = v\<close> replaces the value of an existing key in
  place and appends a new key, which is \<open>AList.update\<close>.
\<close>

definition get_point :: "(string \<times> point) list \<Rightarrow> string \<Rightarrow> py_error + point" where
  "get_point ps name = (case map_of ps name of None \<Rightarrow> Inl KeyError | Some p \<Rightarrow> Inr p)"

subsection \<open>Perpendicular bisector of A and B (in \<open>draw_euclidean_elements\<close>)\<close>

type_synonym segment = "(real \<times> real) \<times> (real \<times> real)"

text \<open>
  Lines 148 to 158: the midpoint, the direction \<open>(dx, dy)\<close>, its length, and, under the
  guard \<open>length > 0\<close>, the two end points of the segment. No segment is \<open>None\<close>.
\<close>

definition perp_bisector :: "real \<times> real \<Rightarrow> real \<times> real \<Rightarrow> py_error + segment option" where
  "perp_bisector A B =
     (let mid_x = (fst A + fst B) / 2;
          mid_y = (snd A + snd B) / 2;
          dx = fst B - fst A;
          dy = snd B - snd A
      in case py_sqrt (dx * dx + dy * dy) of
           Inl e \<Rightarrow> Inl e
         | Inr len \<Rightarrow>
             if len > 0 then
               (case py_truediv (- dy) len of
                  Inl e \<Rightarrow> Inl e
                | Inr qx \<Rightarrow>
                    (case py_truediv dx len of
                       Inl e \<Rightarrow> Inl e
                     | Inr qy \<Rightarrow>
                         let perp_dx = qx * 80;
                             perp_dy = qy * 80;
                             perp_start = (mid_x + perp_dx, mid_y + perp_dy);
                             perp_end = (mid_x - perp_dx, mid_y - perp_dy)
                         in Inr (Some (perp_start, perp_end))))
             else Inr None)"

text \<open>
  The perpendicular line that \<open>draw_euclidean_elements\<close> draws in one frame, as the list
  of \<open>pygame.draw.line\<close> calls of lines 160 and 161 (screen coordinates). The function
  returns at once in mode \<open>AFFINE\<close>; it reads all four points first.
\<close>

definition draw_euclidean_perp ::
  "GeometryViz \<Rightarrow> py_error + ((int \<times> int) \<times> (int \<times> int)) list" where
  "draw_euclidean_perp s =
     (if mode s = AFFINE then Inr []
      else
        (case get_point (points s) ''A'' of Inl e \<Rightarrow> Inl e | Inr A \<Rightarrow>
        (case get_point (points s) ''B'' of Inl e \<Rightarrow> Inl e | Inr B \<Rightarrow>
        (case get_point (points s) ''C'' of Inl e \<Rightarrow> Inl e | Inr C \<Rightarrow>
        (case get_point (points s) ''D'' of Inl e \<Rightarrow> Inl e | Inr D \<Rightarrow>
        (case perp_bisector (real_of_int (fst A), real_of_int (snd A))
                            (real_of_int (fst B), real_of_int (snd B)) of
           Inl e \<Rightarrow> Inl e
         | Inr None \<Rightarrow> Inr []
         | Inr (Some (perp_start, perp_end)) \<Rightarrow>
             Inr [(to_screen (fst perp_start) (snd perp_start),
                   to_screen (fst perp_end) (snd perp_end))]))))))"

subsection \<open>Time-parameterized drawing values\<close>

text \<open>Line 138: the pulse that scales the thickness of the line AB.\<close>

definition pulse :: "GeometryViz \<Rightarrow> real" where
  "pulse s = sin (pulse_phase s) * 0.5 + 1"

text \<open>Line 190: the shear factor of the transformed triangle.\<close>

definition shear_factor :: "GeometryViz \<Rightarrow> real" where
  "shear_factor s = 0.3 * sin (time s * 0.5)"

text \<open>Lines 193 and 194: the shear applied to one point.\<close>

definition shear :: "real \<Rightarrow> real \<times> real \<Rightarrow> real \<times> real" where
  "shear k p = (fst p + k * snd p, snd p)"

subsection \<open>Input handling\<close>

text \<open>
  The loop of lines 263 to 271: the first point, in dictionary order, whose screen
  position is less than 15 pixels from the pointer, with the captured offset. The
  argument of \<open>math.sqrt\<close> is a sum of two squares, so it cannot raise.
\<close>

fun find_clicked :: "int \<times> int \<Rightarrow> (string \<times> point) list \<Rightarrow> (string \<times> (int \<times> int)) option" where
  "find_clicked mouse_pos [] = None"
| "find_clicked mouse_pos ((name, pos) # rest) =
     (let screen_pos = to_screen (real_of_int (fst pos)) (real_of_int (snd pos));
          distance = sqrt (real_of_int ((fst mouse_pos - fst screen_pos)\<^sup>2
                                        + (snd mouse_pos - snd screen_pos)\<^sup>2))
      in if distance < 15
         then Some (name, (fst mouse_pos - fst screen_pos, snd mouse_pos - snd screen_pos))
         else find_clicked mouse_pos rest)"

text \<open>\<open>mouse_pressed\<close> is the triple of button states; its first component is the left button.\<close>

definition handle_mouse :: "GeometryViz \<Rightarrow> int \<times> int \<Rightarrow> bool \<times> bool \<times> bool \<Rightarrow> GeometryViz" where
  "handle_mouse s mouse_pos mouse_pressed =
     (if fst mouse_pressed then
        (case dragging s of
           None \<Rightarrow>
             (case find_clicked mouse_pos (points s) of
                None \<Rightarrow> s
              | Some (name, off) \<Rightarrow> s\<lparr>dragging := Some name, drag_offset := off\<rparr>)
         | Some d \<Rightarrow>
             (let new_pos = to_math (fst mouse_pos - fst (drag_offset s))
                                    (snd mouse_pos - snd (drag_offset s))
              in s\<lparr>points := AList.update d new_pos (points s)\<rparr>))
      else s\<lparr>dragging := None\<rparr>)"

text \<open>One event of the loop of lines 293 to 314; the boolean is \<open>running\<close>.\<close>

fun handle_event :: "GeometryViz \<times> bool \<Rightarrow> event \<Rightarrow> GeometryViz \<times> bool" where
  "handle_event (s, running) QUIT = (s, False)"
| "handle_event (s, running) (KEYDOWN k) =
     (if k = K_e then (s\<lparr>mode := EUCLIDEAN\<rparr>, running)
      else if k = K_a then (s\<lparr>mode := AFFINE\<rparr>, running)
      else if k = K_b then (s\<lparr>mode := BOTH\<rparr>, running)
      else if k = K_g then (s\<lparr>show_grid := \<not> show_grid s\<rparr>, running)
      else if k = K_SPACE then (s\<lparr>animate := \<not> animate s\<rparr>, running)
      else if k = K_r then (s\<lparr>points := default_points\<rparr>, running)
      else (s, running))"
| "handle_event (s, running) OTHER_EVENT = (s, running)"

subsection \<open>Frame driver\<close>

text \<open>
  What one iteration of the loop of \<open>run\<close> reads from the toolkit: the milliseconds
  returned by \<open>clock.tick\<close>, the queued events, the pointer position and the buttons.
\<close>

record frame_input =
  ms :: nat
  events :: "event list"
  mouse_pos :: "int \<times> int"
  mouse_pressed :: "bool \<times> bool \<times> bool"

text \<open>Lines 285 to 290: the clock always advances; the animation parameters only when animating.\<close>

definition tick :: "GeometryViz \<Rightarrow> real \<Rightarrow> GeometryViz" where
  "tick s dt =
     (let s1 = s\<lparr>time := time s + dt\<rparr>
      in if animate s1
         then s1\<lparr>pulse_phase := pulse_phase s1 + dt * 3,
                 rotation_angle := rotation_angle s1 + dt * 0.5\<rparr>
         else s1)"

text \<open>One iteration of the loop body, up to the drawing; the boolean is \<open>running\<close>.\<close>

definition frame :: "GeometryViz \<Rightarrow> frame_input \<Rightarrow> GeometryViz \<times> bool" where
  "frame s f =
     (let dt = real (ms f) / 1000;
          s1 = tick s dt;
          (s2, running) = foldl handle_event (s1, True) (events f)
      in (handle_mouse s2 (mouse_pos f) (mouse_pressed f), running))"

text \<open>
  The loop of \<open>run\<close> over the frames the toolkit delivers: it stops after the frame
  that clears \<open>running\<close>.
\<close>

fun run :: "GeometryViz \<Rightarrow> frame_input list \<Rightarrow> GeometryViz" where
  "run s [] = s"
| "run s (f # fs) = (case frame s f of (s', running) \<Rightarrow> if running then run s' fs else s')"

section \<open>\<open>R2 confusion.py\<close>: cross-sections of higher-dimensional algebraic spaces\<close>

definition WIDTH_cs :: int where "WIDTH_cs = 1200"
definition HEIGHT_cs :: int where "HEIGHT_cs = 800"

datatype ViewMode = REAL_PLANE | COMPLEX_PROJECTION | FOUR_D_SLICES | MULTI_FIELD

text \<open>The fields of \<open>CrossSectionViz\<close>, the toolkit handles left out.\<close>

record CrossSectionViz =
  view_mode :: ViewMode
  time_cs :: real
  show_projections :: bool
  show_hidden_dims :: bool
  animate_cs :: bool
  slice_real_im :: real
  slice_imaginary :: real
  viewing_angle :: real
  radius :: int

text \<open>The state built by \<open>CrossSectionViz.__init__\<close>.\<close>

definition init_cs :: CrossSectionViz where
  "init_cs = \<lparr> view_mode = REAL_PLANE, time_cs = 0, show_projections = True,
               show_hidden_dims = True, animate_cs = True, slice_real_im = 0,
               slice_imaginary = 0, viewing_angle = 0, radius = 80 \<rparr>"

definition to_screen_cs :: "real \<Rightarrow> real \<Rightarrow> int \<Rightarrow> int \<Rightarrow> int \<times> int" where
  "to_screen_cs x y offset_x offset_y =
     (let base_x = WIDTH_cs div 2 + offset_x;
          base_y = HEIGHT_cs div 2 + offset_y
      in (py_int (real_of_int base_x + x), py_int (real_of_int base_y - y)))"

subsection \<open>Complex-curve sampler\<close>

text \<open>Lines 84 to 90: the pair \<open>(z1, z2)\<close> for one parameter \<open>t = real_t + i complex_param\<close>.\<close>

definition complex_circle_point :: "real \<Rightarrow> real \<Rightarrow> real \<Rightarrow> complex \<times> complex" where
  "complex_circle_point r real_t complex_param =
     (let t = Complex real_t complex_param;
          z1 = of_real r * Complex (cos (Re t) * cosh (Im t)) (- sin (Re t) * sinh (Im t));
          z2 = of_real r * Complex (sin (Re t) * cosh (Im t)) (cos (Re t) * sinh (Im t))
      in (z1, z2))"

text \<open>The two nested loops of \<open>complex_circle_solutions\<close>, appending in loop order.\<close>

definition complex_circle_solutions :: "real \<Rightarrow> (complex \<times> complex) list" where
  "complex_circle_solutions r =
     concat (map (\<lambda>real_t.
                    map (\<lambda>complex_param. complex_circle_point r real_t complex_param)
                        (linspace (- 0.5) 0.5 5))
                 (linspace 0 (2 * pi) 40))"

subsection \<open>Four-dimensional slices\<close>

text \<open>Lines 211 and 222: the y-value of one sample of a slice.\<close>

definition slice_y_val :: "int \<Rightarrow> real \<Rightarrow> real \<Rightarrow> py_error + real" where
  "slice_y_val r s x = py_sqrt \<bar>real_of_int (r\<^sup>2) - s\<^sup>2 - x\<^sup>2\<bar>"

text \<open>
  The sampling loop of the branches \<open>i == 1\<close> and \<open>i == 2\<close>: the centres of the circles
  drawn, two for each sample; the \<open>try\<close> with a bare \<open>except: pass\<close> skips a sample that
  raises.
\<close>

definition draw_slice :: "int \<Rightarrow> real \<Rightarrow> int \<Rightarrow> int \<Rightarrow> (int \<times> int) list" where
  "draw_slice r s offset_x offset_y =
     concat (map (\<lambda>x. case slice_y_val r s x of
                         Inl e \<Rightarrow> []
                       | Inr y_val \<Rightarrow> [to_screen_cs x y_val offset_x offset_y,
                                        to_screen_cs x (- y_val) offset_x offset_y])
                 (linspace (- 50) 50 100))"

text \<open>The two hyperbolic slices of \<open>draw_four_d_slices\<close>, at their positions.\<close>

definition draw_four_d_slices :: "CrossSectionViz \<Rightarrow> (int \<times> int) list" where
  "draw_four_d_slices c =
     draw_slice (radius c) (slice_imaginary c) 250 (- 150)
     @ draw_slice (radius c) (slice_real_im c) (- 250) 150"

subsection \<open>Finite-field sampler\<close>

text \<open>Lines 276 to 278: the lattice points kept by the modular test, in loop order.\<close>

definition finite_field_points :: "int \<Rightarrow> (int \<times> int) list" where
  "finite_field_points r =
     concat (map (\<lambda>x. concat (map (\<lambda>y. if (x * x + y * y) mod 11 = (r div 10) mod 11
                                          then [(x, y)] else [])
                                   [- 2 .. 2]))
                 [- 2 .. 2])"

text \<open>Lines 279 and 280: the centres of the circles drawn for the field of 11 elements.\<close>

definition draw_finite_field :: "CrossSectionViz \<Rightarrow> (int \<times> int) list" where
  "draw_finite_field c =
     map (\<lambda>(x, y). to_screen_cs (real_of_int (x * 15)) (real_of_int (y * 15)) (- 250) 150)
         (finite_field_points (radius c))"

subsection \<open>Frame driver\<close>

text \<open>Lines 332 to 337: the clock always advances; the slice parameters follow it when animating.\<close>

definition tick_cs :: "CrossSectionViz \<Rightarrow> real \<Rightarrow> CrossSectionViz" where
  "tick_cs c dt =
     (let c1 = c\<lparr>time_cs := time_cs c + dt\<rparr>
      in if animate_cs c1
         then c1\<lparr>slice_real_im := 0.3 * sin (time_cs c1 * 0.5),
                 slice_imaginary := 0.3 * cos (time_cs c1 * 0.7)\<rparr>
         else c1)"

text \<open>One event of the loop of lines 340 to 365; the boolean is \<open>running\<close>.\<close>

fun handle_event_cs :: "CrossSectionViz \<times> bool \<Rightarrow> event \<Rightarrow> CrossSectionViz \<times> bool" where
  "handle_event_cs (c, running) QUIT = (c, False)"
| "handle_event_cs (c, running) (KEYDOWN k) =
     (if k = K_1 then (c\<lparr>view_mode := REAL_PLANE\<rparr>, running)
      else if k = K_2 then (c\<lparr>view_mode := COMPLEX_PROJECTION\<rparr>, running)
      else if k = K_3 then (c\<lparr>view_mode := FOUR_D_SLICES\<rparr>, running)
      else if k = K_4 then (c\<lparr>view_mode := MULTI_FIELD\<rparr>, running)
      else if k = K_UP then (c\<lparr>slice_real_im := slice_real_im c + 0.1\<rparr>, running)
      else if k = K_DOWN then (c\<lparr>slice_real_im := slice_real_im c - 0.1\<rparr>, running)
      else if k = K_LEFT then (c\<lparr>slice_imaginary := slice_imaginary c - 0.1\<rparr>, running)
      else if k = K_RIGHT then (c\<lparr>slice_imaginary := slice_imaginary c + 0.1\<rparr>, running)
      else if k = K_p then (c\<lparr>show_projections := \<not> show_projections c\<rparr>, running)
      else if k = K_h then (c\<lparr>show_hidden_dims := \<not> show_hidden_dims c\<rparr>, running)
      else if k = K_a then (c\<lparr>animate_cs := \<not> animate_cs c\<rparr>, running)
      else (c, running))"
| "handle_event_cs (c, running) OTHER_EVENT = (c, running)"

text \<open>
  One iteration of the loop body, up to the drawing, from the milliseconds returned by
  \<open>clock.tick\<close> and the queued events; the boolean is \<open>running\<close>.
\<close>

definition frame_cs :: "CrossSectionViz \<Rightarrow> nat \<times> event list \<Rightarrow> CrossSectionViz \<times> bool" where
  "frame_cs c f = foldl handle_event_cs (tick_cs c (real (fst f) / 1000), True) (snd f)"

fun run_cs :: "CrossSectionViz \<Rightarrow> (nat \<times> event list) list \<Rightarrow> CrossSectionViz" where
  "run_cs c [] = c"
| "run_cs c (f # fs) = (case frame_cs c f of (c', running) \<Rightarrow> if running then run_cs c' fs else c')"

section \<open>Event classes and frames used in the statements\<close>

text \<open>
  The key events of the cross-section program that change a slice parameter or the
  animation flag.
\<close>

definition slice_keys :: "event set" where
  "slice_keys = {KEYDOWN K_a, KEYDOWN K_UP, KEYDOWN K_DOWN, KEYDOWN K_LEFT, KEYDOWN K_RIGHT}"

text \<open>A frame of 16 milliseconds in which the space key arrives, and one in which nothing arrives.\<close>

definition frame_space :: frame_input where
  "frame_space = \<lparr>ms = 16, events = [KEYDOWN K_SPACE], mouse_pos = (0, 0),
                   mouse_pressed = (False, False, False)\<rparr>"

definition frame_idle :: frame_input where
  "frame_idle = \<lparr>ms = 16, events = [], mouse_pos = (0, 0),
                  mouse_pressed = (False, False, False)\<rparr>"

section \<open>Properties\<close>

subsection \<open>Coordinate mapper\<close>




subsection \<open>Perpendicular bisector\<close>

lemma sqrt_sumsq_pos:
  assumes "(a::real) \<noteq> 0 \<or> b \<noteq> 0"
  shows "0 < sqrt (a * a + b * b)"
proof -
  have "0 < a * a + b * b"
    using assms by (metis add_pos_nonneg add_nonneg_pos mult_nonneg_nonneg not_real_square_gt_zero zero_le_square)
  then show ?thesis by simp
qed

lemma perp_bisector_nondegenerate:
  assumes "A \<noteq> B"
  shows "perp_bisector A B =
           (let len = sqrt ((fst B - fst A) * (fst B - fst A) + (snd B - snd A) * (snd B - snd A));
                mid_x = (fst A + fst B) / 2;
                mid_y = (snd A + snd B) / 2;
                perp_dx = - (snd B - snd A) / len * 80;
                perp_dy = (fst B - fst A) / len * 80
            in Inr (Some ((mid_x + perp_dx, mid_y + perp_dy), (mid_x - perp_dx, mid_y - perp_dy))))"
proof -
  from assms have "fst B - fst A \<noteq> 0 \<or> snd B - snd A \<noteq> 0"
    by (auto simp: prod_eq_iff)
  then have pos: "0 < sqrt ((fst B - fst A) * (fst B - fst A) + (snd B - snd A) * (snd B - snd A))"
    by (rule sqrt_sumsq_pos)
  have nn: "\<not> (fst B - fst A) * (fst B - fst A) + (snd B - snd A) * (snd B - snd A) < 0"
    by (simp add: not_less)
  have ne: "sqrt ((fst B - fst A) * (fst B - fst A) + (snd B - snd A) * (snd B - snd A)) \<noteq> 0"
    using pos by linarith
  show ?thesis
    unfolding perp_bisector_def py_sqrt_def py_truediv_def Let_def
    by (simp only: nn pos ne if_True if_False sum.case)
qed



lemma perp_bisector_same: "perp_bisector A A = Inr None"
  by (simp add: perp_bisector_def py_sqrt_def Let_def)

lemma perp_bisector_no_error: "perp_bisector A B \<noteq> Inl e"
proof (cases "A = B")
  case True
  then show ?thesis by (simp add: perp_bisector_same)
next
  case False
  then show ?thesis by (simp add: perp_bisector_nondegenerate Let_def)
qed

lemma draw_euclidean_perp_error:
  "draw_euclidean_perp s = Inl e \<Longrightarrow> e = KeyError"
  by (auto simp: draw_euclidean_perp_def get_point_def perp_bisector_no_error
           split: if_splits option.splits sum.splits)

text \<open>
  Claim C8. When \<open>A = B\<close> the length is zero, the guard fails and no segment is computed,
  so neither division by the length is evaluated; for all inputs the computation of the
  segment raises nothing, and the frame's drawing of the perpendicular line never raises
  \<open>ZeroDivisionError\<close>. With equal points A and B the frame draws no perpendicular line.
\<close>

theorem perp_bisector_degenerate_skipped:
  "perp_bisector A A = Inr None
   \<and> perp_bisector P Q \<noteq> Inl e
   \<and> draw_euclidean_perp s \<noteq> Inl ZeroDivisionError
   \<and> (get_point (points s) ''A'' = Inr a \<and> get_point (points s) ''B'' = Inr a
        \<and> get_point (points s) ''C'' = Inr c \<and> get_point (points s) ''D'' = Inr d
       \<longrightarrow> draw_euclidean_perp s = Inr [])"
proof -
  have "draw_euclidean_perp s \<noteq> Inl ZeroDivisionError"
    using draw_euclidean_perp_error [of s ZeroDivisionError] by auto
  moreover have "get_point (points s) ''A'' = Inr a \<and> get_point (points s) ''B'' = Inr a
        \<and> get_point (points s) ''C'' = Inr c \<and> get_point (points s) ''D'' = Inr d
       \<longrightarrow> draw_euclidean_perp s = Inr []"
    by (simp add: draw_euclidean_perp_def perp_bisector_same)
  ultimately show ?thesis
    by (simp add: perp_bisector_same perp_bisector_no_error)
qed

text \<open>A state whose points A and B coincide at \<open>(5, 5)\<close>.\<close>

theorem perp_bisector_degenerate_witness:
  "get_point (points (init\<lparr>points := [(''A'', (5, 5)), (''B'', (5, 5)), (''C'', (- 80, 150)), (''D'', (120, - 120))]\<rparr>)) ''A'' = Inr (5, 5)
   \<and> get_point (points (init\<lparr>points := [(''A'', (5, 5)), (''B'', (5, 5)), (''C'', (- 80, 150)), (''D'', (120, - 120))]\<rparr>)) ''B'' = Inr (5, 5)
   \<and> draw_euclidean_perp (init\<lparr>points := [(''A'', (5, 5)), (''B'', (5, 5)), (''C'', (- 80, 150)), (''D'', (120, - 120))]\<rparr>) = Inr []"
  using perp_bisector_degenerate_skipped
          [of _ _ _ _ "init\<lparr>points := [(''A'', (5, 5)), (''B'', (5, 5)), (''C'', (- 80, 150)), (''D'', (120, - 120))]\<rparr>"
              "(5, 5)" "(- 80, 150)" "(120, - 120)"]
  by (simp add: get_point_def)

subsection \<open>Dragging\<close>

text \<open>
  Claim C7. A step of \<open>handle_mouse\<close> leaves the coordinates of every point other than
  the dragged one as they were.
\<close>

theorem handle_mouse_only_dragged:
  assumes "dragging s \<noteq> Some n"
  shows "map_of (points (handle_mouse s pos buttons)) n = map_of (points s) n"
  using assms
  by (auto simp: handle_mouse_def Let_def update_conv' split: option.splits prod.splits)

text \<open>Dragging A to the pointer at \<open>(500, 300)\<close> moves A and leaves B in place.\<close>

theorem handle_mouse_only_dragged_witness:
  "dragging (init\<lparr>dragging := Some ''A''\<rparr>) \<noteq> Some ''B''
   \<and> map_of (points (handle_mouse (init\<lparr>dragging := Some ''A''\<rparr>) (500, 300) (True, False, False))) ''B''
       = Some (150, 120)
   \<and> map_of (points (handle_mouse (init\<lparr>dragging := Some ''A''\<rparr>) (500, 300) (True, False, False))) ''A''
       = Some (50, 0)"
  using handle_mouse_only_dragged
          [of "init\<lparr>dragging := Some ''A''\<rparr>" "''B''" "(500, 300)" "(True, False, False)"]
  by (simp add: init_def default_points_def handle_mouse_def to_math_def WIDTH_def HEIGHT_def)

subsection \<open>Reset\<close>

text \<open>
  Claim C9. From every state, the reset command (key R) sets the point dictionary to
  exactly A at \<open>(-120, -80)\<close>, B at \<open>(150, 120)\<close>, C at \<open>(-80, 150)\<close> and D at \<open>(120, -120)\<close>.
\<close>

theorem reset_restores_default_points:
  "points (fst (handle_event (s, running) (KEYDOWN K_r)))
     = [(''A'', (-120, -80)), (''B'', (150, 120)), (''C'', (-80, 150)), (''D'', (120, -120))]"
  by (simp add: default_points_def)

subsection \<open>Finite-field sampler\<close>

lemma set_filtered_grid:
  "(x, y) \<in> set (concat (map (\<lambda>x. concat (map (\<lambda>y. if P x y then [(x, y)] else []) ys)) xs))
     \<longleftrightarrow> x \<in> set xs \<and> y \<in> set ys \<and> P x y"
  by (auto split: if_splits)

text \<open>
  Claim C6. The finite-field sampler emits exactly the points \<open>(x, y)\<close> of the grid
  \<open>{-2..2} \<times> {-2..2}\<close> with \<open>(x\<^sup>2 + y\<^sup>2) mod 11 = (radius // 10) mod 11\<close>: every emitted point
  satisfies the equation, and no grid point that violates it is emitted.
\<close>

theorem finite_field_points_iff:
  "(x, y) \<in> set (finite_field_points r) \<longleftrightarrow>
     x \<in> {- 2 .. 2} \<and> y \<in> {- 2 .. 2} \<and> (x * x + y * y) mod 11 = (r div 10) mod 11"
  unfolding finite_field_points_def set_filtered_grid by (simp only: set_upto)

text \<open>For the radius 80 of the program the target is 8: \<open>(2, 2)\<close> is emitted, \<open>(1, 2)\<close> is not.\<close>

theorem finite_field_points_witness:
  "(2, 2) \<in> set (finite_field_points 80) \<and> (1, 2) \<notin> set (finite_field_points 80)"
  using finite_field_points_iff [of 2 2 80] finite_field_points_iff [of 1 2 80] by simp

subsection \<open>Four-dimensional slices are total\<close>


lemma length_linspace: "length (linspace a b n) = n"
  by (simp add: linspace_def)



subsection \<open>Complex-curve sampler\<close>

lemma complex_circle_point_on_curve:
  "(fst (complex_circle_point r a b))\<^sup>2 + (snd (complex_circle_point r a b))\<^sup>2 = of_real (r\<^sup>2)"
proof -
  define c where "c = cos a"
  define s where "s = sin a"
  define C where "C = cosh b"
  define S where "S = sinh b"
  have cs: "c * c + s * s = 1"
    unfolding c_def s_def by (rule sin_cos_squared_add3)
  have CS: "C * C = S * S + 1"
    using cosh_square_eq [of b] by (simp add: C_def S_def power2_eq_square)
  have re: "r * r * (c * C * (c * C) - s * S * (s * S)) + r * r * (s * C * (s * C) - c * S * (c * S)) = r * r"
  proof -
    have "c * C * (c * C) - s * S * (s * S) + (s * C * (s * C) - c * S * (c * S))
            = (c * c + s * s) * (C * C) - (c * c + s * s) * (S * S)"
      by (simp add: algebra_simps)
    also have "\<dots> = 1"
      by (simp add: cs CS)
    finally show ?thesis
      by (simp add: distrib_left [symmetric])
  qed
  have im: "r * r * (c * C * (- s * S) + - s * S * (c * C)) + r * r * (s * C * (c * S) + c * S * (s * C)) = 0"
    by (simp add: algebra_simps)
  show ?thesis
    unfolding complex_circle_point_def Let_def
    using re im
    by (simp add: complex_eq_iff power2_eq_square c_def s_def C_def S_def algebra_simps)
qed

lemma concat_map_product:
  "concat (map (\<lambda>x. map (f x) ys) xs) = map (\<lambda>(x, y). f x y) (List.product xs ys)"
  by (induction xs) simp_all

lemma complex_circle_solutions_product:
  "complex_circle_solutions r =
     map (\<lambda>(real_t, complex_param). complex_circle_point r real_t complex_param)
         (List.product (linspace 0 (2 * pi) 40) (linspace (- 0.5) 0.5 5))"
  unfolding complex_circle_solutions_def by (rule concat_map_product)

lemma nth_linspace:
  "i < n \<Longrightarrow> linspace a b n ! i = a + real i * ((b - a) / real (n - 1))"
  by (simp add: linspace_def)

lemma grid_real_range:
  assumes "i < 40"
  shows "0 \<le> real i * (2 * pi / 39)" and "real i * (2 * pi / 39) \<le> 2 * pi"
proof -
  show "0 \<le> real i * (2 * pi / 39)" by simp
  have "real i \<le> 39" using assms by simp
  then have "real i * (2 * pi / 39) \<le> 39 * (2 * pi / 39)"
    by (intro mult_right_mono) simp_all
  then show "real i * (2 * pi / 39) \<le> 2 * pi" by simp
qed

lemma grid_imag_range:
  assumes "j < 5"
  shows "- 0.5 \<le> - 0.5 + real j / 4" and "- 0.5 + real j / 4 \<le> (0.5 :: real)"
proof -
  show "- 0.5 \<le> - 0.5 + real j / 4" by simp
  have "real j \<le> 4" using assms by simp
  then show "- 0.5 + real j / 4 \<le> (0.5 :: real)" by simp
qed

text \<open>
  Claim C5. Every pair \<open>(z1, z2)\<close> emitted by the complex-curve sampler satisfies
  \<open>z1\<^sup>2 + z2\<^sup>2 = r\<^sup>2\<close>, and the sampler emits one pair for each point of the grid of 40
  real parts \<open>2 \<pi> i / 39\<close> in \<open>[0, 2 \<pi>]\<close> and 5 imaginary parts \<open>-0.5 + j / 4\<close> in
  \<open>[-0.5, 0.5]\<close>, 200 pairs in all.
\<close>

theorem complex_circle_solutions_on_curve:
  "(\<forall>p \<in> set (complex_circle_solutions r). (fst p)\<^sup>2 + (snd p)\<^sup>2 = of_real (r\<^sup>2))
   \<and> length (complex_circle_solutions r) = 40 * 5
   \<and> (\<forall>i < 40. \<forall>j < 5.
         complex_circle_solutions r ! (i * 5 + j)
           = complex_circle_point r (real i * (2 * pi / 39)) (- 0.5 + real j / 4)
         \<and> 0 \<le> real i * (2 * pi / 39) \<and> real i * (2 * pi / 39) \<le> 2 * pi
         \<and> - 0.5 \<le> - 0.5 + real j / 4 \<and> - 0.5 + real j / 4 \<le> (0.5 :: real))"
proof (intro conjI allI impI ballI)
  fix p assume "p \<in> set (complex_circle_solutions r)"
  then obtain a b where "p = complex_circle_point r a b"
    by (auto simp: complex_circle_solutions_product)
  then show "(fst p)\<^sup>2 + (snd p)\<^sup>2 = of_real (r\<^sup>2)"
    by (simp only: complex_circle_point_on_curve)
next
  show "length (complex_circle_solutions r) = 40 * 5"
    by (simp add: complex_circle_solutions_product length_linspace)
next
  fix i j :: nat assume i: "i < 40" and j: "j < 5"
  have lt: "i * 5 + j < length (linspace 0 (2 * pi) 40) * length (linspace (- 0.5) 0.5 5)"
    using i j by (simp add: length_linspace)
  have d: "(i * 5 + j) div 5 = i" and m: "(i * 5 + j) mod 5 = j"
    using j by simp_all
  have "complex_circle_solutions r ! (i * 5 + j)
          = complex_circle_point r (linspace 0 (2 * pi) 40 ! i) (linspace (- 0.5) 0.5 5 ! j)"
    unfolding complex_circle_solutions_product
    using lt j by (simp add: product_nth length_linspace d)
  then show "complex_circle_solutions r ! (i * 5 + j)
           = complex_circle_point r (real i * (2 * pi / 39)) (- 0.5 + real j / 4)"
    using i j by (simp add: nth_linspace)
  show "0 \<le> real i * (2 * pi / 39)" "real i * (2 * pi / 39) \<le> 2 * pi"
    by (rule grid_real_range [OF i])+
  show "- 0.5 \<le> - 0.5 + real j / 4" "- 0.5 + real j / 4 \<le> (0.5 :: real)"
    by (rule grid_imag_range [OF j])+
qed

text \<open>The first and the last pair emitted for the radius 80.\<close>

theorem complex_circle_solutions_witness:
  "(fst (complex_circle_solutions 80 ! 0))\<^sup>2 + (snd (complex_circle_solutions 80 ! 0))\<^sup>2 = of_real (80\<^sup>2)
   \<and> complex_circle_solutions 80 ! (39 * 5 + 4) = complex_circle_point 80 (2 * pi) 0.5"
proof -
  note t = complex_circle_solutions_on_curve [of 80]
  from t have len: "length (complex_circle_solutions 80) = 40 * 5" by blast
  have "complex_circle_solutions 80 ! 0 \<in> set (complex_circle_solutions 80)"
    by (rule nth_mem) (simp add: len)
  with t have a: "(fst (complex_circle_solutions 80 ! 0))\<^sup>2 + (snd (complex_circle_solutions 80 ! 0))\<^sup>2 = of_real (80\<^sup>2)"
    by blast
  from t have g: "\<forall>i<40. \<forall>j<5. complex_circle_solutions 80 ! (i * 5 + j)
           = complex_circle_point 80 (real i * (2 * pi / 39)) (- 0.5 + real j / 4)"
    by blast
  have "complex_circle_solutions 80 ! (39 * 5 + 4)
           = complex_circle_point 80 (real 39 * (2 * pi / 39)) (- 0.5 + real 4 / 4)"
    using g [rule_format, of 39 4] by simp
  then have b: "complex_circle_solutions 80 ! (39 * 5 + 4) = complex_circle_point 80 (2 * pi) 0.5"
    by simp
  from a b show ?thesis by blast
qed

subsection \<open>Animation switched off: the frame loop of ele.py\<close>

lemma handle_event_frozen:
  assumes "handle_event (s, r) e = (s', r')"
  shows "pulse_phase s' = pulse_phase s \<and> rotation_angle s' = rotation_angle s
         \<and> (e \<noteq> KEYDOWN K_SPACE \<longrightarrow> animate s' = animate s)"
  using assms by (cases e) (auto split: if_splits)

lemma handle_events_frozen:
  assumes "foldl handle_event (s, r) es = (s', r')" and "KEYDOWN K_SPACE \<notin> set es"
  shows "pulse_phase s' = pulse_phase s \<and> rotation_angle s' = rotation_angle s
         \<and> animate s' = animate s"
  using assms
proof (induction es arbitrary: s r)
  case Nil
  then show ?case by simp
next
  case (Cons e es)
  obtain s1 r1 where step: "handle_event (s, r) e = (s1, r1)"
    by (cases "handle_event (s, r) e")
  from Cons.prems have e: "e \<noteq> KEYDOWN K_SPACE" and es: "KEYDOWN K_SPACE \<notin> set es"
    by auto
  from Cons.prems(1) step have "foldl handle_event (s1, r1) es = (s', r')"
    by simp
  from Cons.IH [OF this es] handle_event_frozen [OF step] e show ?case
    by simp
qed

lemma handle_mouse_frozen:
  "pulse_phase (handle_mouse s p b) = pulse_phase s
   \<and> rotation_angle (handle_mouse s p b) = rotation_angle s
   \<and> animate (handle_mouse s p b) = animate s"
  by (simp add: handle_mouse_def Let_def split: option.splits prod.splits)

lemma tick_frozen:
  "\<not> animate s \<Longrightarrow> pulse_phase (tick s dt) = pulse_phase s
     \<and> rotation_angle (tick s dt) = rotation_angle s \<and> \<not> animate (tick s dt)"
  by (simp add: tick_def Let_def)

lemma frame_frozen:
  assumes "\<not> animate s" and "KEYDOWN K_SPACE \<notin> set (events f)"
  shows "pulse_phase (fst (frame s f)) = pulse_phase s
         \<and> rotation_angle (fst (frame s f)) = rotation_angle s
         \<and> \<not> animate (fst (frame s f))"
proof -
  obtain s2 r2 where ev: "foldl handle_event (tick s (real (ms f) / 1000), True) (events f) = (s2, r2)"
    by (cases "foldl handle_event (tick s (real (ms f) / 1000), True) (events f)")
  have fr: "fst (frame s f) = handle_mouse s2 (mouse_pos f) (mouse_pressed f)"
    by (simp add: frame_def Let_def ev)
  from handle_events_frozen [OF ev assms(2)] tick_frozen [OF assms(1)] handle_mouse_frozen
  show ?thesis unfolding fr by simp
qed

lemma run_frozen:
  assumes "\<not> animate s" and "\<forall>f \<in> set fs. KEYDOWN K_SPACE \<notin> set (events f)"
  shows "pulse_phase (run s fs) = pulse_phase s
         \<and> rotation_angle (run s fs) = rotation_angle s
         \<and> \<not> animate (run s fs)"
  using assms
proof (induction fs arbitrary: s)
  case Nil
  then show ?case by simp
next
  case (Cons f fs)
  obtain s1 r1 where fr: "frame s f = (s1, r1)" by (cases "frame s f")
  from Cons.prems have f: "KEYDOWN K_SPACE \<notin> set (events f)"
    and fs: "\<forall>f \<in> set fs. KEYDOWN K_SPACE \<notin> set (events f)" by auto
  from frame_frozen [OF Cons.prems(1) f] fr
  have s1: "pulse_phase s1 = pulse_phase s" "rotation_angle s1 = rotation_angle s" "\<not> animate s1"
    by simp_all
  show ?case
  proof (cases r1)
    case True
    with fr have "run s (f # fs) = run s1 fs" by simp
    with Cons.IH [OF s1(3) fs] s1 show ?thesis by simp
  next
    case False
    with fr have "run s (f # fs) = s1" by simp
    with s1 show ?thesis by simp
  qed
qed

subsection \<open>Animation switched off: the frame loop of the cross-section program\<close>

lemma handle_event_cs_frozen:
  assumes "handle_event_cs (c, r) e = (c', r')" and "e \<notin> slice_keys"
  shows "slice_real_im c' = slice_real_im c \<and> slice_imaginary c' = slice_imaginary c
         \<and> animate_cs c' = animate_cs c"
  using assms by (cases e) (auto simp: slice_keys_def split: if_splits)

lemma handle_events_cs_frozen:
  assumes "foldl handle_event_cs (c, r) es = (c', r')" and "set es \<inter> slice_keys = {}"
  shows "slice_real_im c' = slice_real_im c \<and> slice_imaginary c' = slice_imaginary c
         \<and> animate_cs c' = animate_cs c"
  using assms
proof (induction es arbitrary: c r)
  case Nil
  then show ?case by simp
next
  case (Cons e es)
  obtain c1 r1 where step: "handle_event_cs (c, r) e = (c1, r1)"
    by (cases "handle_event_cs (c, r) e")
  from Cons.prems have e: "e \<notin> slice_keys" and es: "set es \<inter> slice_keys = {}"
    by auto
  from Cons.prems(1) step have "foldl handle_event_cs (c1, r1) es = (c', r')"
    by simp
  from Cons.IH [OF this es] handle_event_cs_frozen [OF step e] show ?case
    by simp
qed

lemma tick_cs_frozen:
  "\<not> animate_cs c \<Longrightarrow> slice_real_im (tick_cs c dt) = slice_real_im c
     \<and> slice_imaginary (tick_cs c dt) = slice_imaginary c \<and> \<not> animate_cs (tick_cs c dt)"
  by (simp add: tick_cs_def Let_def)

lemma frame_cs_frozen:
  assumes "\<not> animate_cs c" and "set (snd f) \<inter> slice_keys = {}"
  shows "slice_real_im (fst (frame_cs c f)) = slice_real_im c
         \<and> slice_imaginary (fst (frame_cs c f)) = slice_imaginary c
         \<and> \<not> animate_cs (fst (frame_cs c f))"
proof -
  obtain c2 r2 where ev: "frame_cs c f = (c2, r2)" by (cases "frame_cs c f")
  then have "foldl handle_event_cs (tick_cs c (real (fst f) / 1000), True) (snd f) = (c2, r2)"
    by (simp add: frame_cs_def)
  from handle_events_cs_frozen [OF this assms(2)] tick_cs_frozen [OF assms(1)] ev
  show ?thesis by simp
qed

lemma run_cs_frozen:
  assumes "\<not> animate_cs c" and "\<forall>f \<in> set fs. set (snd f) \<inter> slice_keys = {}"
  shows "slice_real_im (run_cs c fs) = slice_real_im c
         \<and> slice_imaginary (run_cs c fs) = slice_imaginary c
         \<and> \<not> animate_cs (run_cs c fs)"
  using assms
proof (induction fs arbitrary: c)
  case Nil
  then show ?case by simp
next
  case (Cons f fs)
  obtain c1 r1 where fr: "frame_cs c f = (c1, r1)" by (cases "frame_cs c f")
  from Cons.prems have f: "set (snd f) \<inter> slice_keys = {}"
    and fs: "\<forall>f \<in> set fs. set (snd f) \<inter> slice_keys = {}" by auto
  from frame_cs_frozen [OF Cons.prems(1) f] fr
  have c1: "slice_real_im c1 = slice_real_im c" "slice_imaginary c1 = slice_imaginary c"
    "\<not> animate_cs c1"
    by simp_all
  show ?case
  proof (cases r1)
    case True
    with fr have "run_cs c (f # fs) = run_cs c1 fs" by simp
    with Cons.IH [OF c1(3) fs] c1 show ?thesis by simp
  next
    case False
    with fr have "run_cs c (f # fs) = c1" by simp
    with c1 show ?thesis by simp
  qed
qed

text \<open>
  Claim C2 (as amended). Once the animation flag is off, and as long as no key event
  toggles it, the pulse phase and the rotation angle of ele.py, and with them the pulse of
  the line thickness, keep their values over any number of frames; in the cross-section
  program the two slice parameters keep their values over any number of frames without
  an arrow key or the animation key.
\<close>

theorem animation_off_freezes:
  assumes "\<not> animate s"
    and "\<forall>f \<in> set fs. KEYDOWN K_SPACE \<notin> set (events f)"
    and "\<not> animate_cs c"
    and "\<forall>g \<in> set gs. set (snd g) \<inter> slice_keys = {}"
  shows "pulse_phase (run s fs) = pulse_phase s
         \<and> rotation_angle (run s fs) = rotation_angle s
         \<and> pulse (run s fs) = pulse s
         \<and> slice_real_im (run_cs c gs) = slice_real_im c
         \<and> slice_imaginary (run_cs c gs) = slice_imaginary c"
  using run_frozen [OF assms(1,2)] run_cs_frozen [OF assms(3,4)]
  by (simp add: pulse_def)

text \<open>One frame of each program with animation off and a mode key pressed.\<close>

theorem animation_off_freezes_witness:
  "\<not> animate (init\<lparr>animate := False\<rparr>)
   \<and> pulse_phase (run (init\<lparr>animate := False\<rparr>)
        [\<lparr>ms = 16, events = [KEYDOWN K_e], mouse_pos = (0, 0), mouse_pressed = (False, False, False)\<rparr>]) = 0
   \<and> \<not> animate_cs (init_cs\<lparr>animate_cs := False\<rparr>)
   \<and> slice_real_im (run_cs (init_cs\<lparr>animate_cs := False\<rparr>) [(16, [KEYDOWN K_3])]) = 0"
  using animation_off_freezes
          [of "init\<lparr>animate := False\<rparr>"
              "[\<lparr>ms = 16, events = [KEYDOWN K_e], mouse_pos = (0, 0), mouse_pressed = (False, False, False)\<rparr>]"
              "init_cs\<lparr>animate_cs := False\<rparr>" "[(16, [KEYDOWN K_3])]"]
  by (simp add: init_def init_cs_def slice_keys_def)

lemma sin_small_strict:
  assumes "0 \<le> x" and "x < y" and "y \<le> (1 :: real)"
  shows "sin x < sin y"
proof -
  have "1 \<le> pi / 2" using pi_ge_two by simp
  then have "- (pi / 2) \<le> x" "x \<le> pi / 2" "- (pi / 2) \<le> y" "y \<le> pi / 2"
    using assms pi_ge_zero by linarith+
  then show ?thesis using assms(2) by (simp add: sin_mono_less_eq)
qed

lemma run_space:
  "run init [frame_space] =
     init\<lparr>time := 2 / 125, pulse_phase := 6 / 125, rotation_angle := 1 / 125, animate := False\<rparr>"
  by (simp add: init_def frame_space_def frame_def tick_def handle_mouse_def Let_def)

lemma run_space_idle:
  "run init [frame_space, frame_idle] =
     init\<lparr>time := 4 / 125, pulse_phase := 6 / 125, rotation_angle := 1 / 125, animate := False\<rparr>"
  by (simp add: init_def frame_space_def frame_idle_def frame_def tick_def handle_mouse_def Let_def)

text \<open>
  Claim C2 as stated fails for the shear factor. The first frame receives the space key
  and turns animation off; the second frame receives nothing. Animation is off after
  both, the pulse phase is the same after both, and the shear factor differs.
\<close>

theorem shear_factor_not_frozen:
  "\<not> animate (run init [frame_space])
   \<and> \<not> animate (run init [frame_space, frame_idle])
   \<and> pulse_phase (run init [frame_space, frame_idle]) = pulse_phase (run init [frame_space])
   \<and> shear_factor (run init [frame_space, frame_idle]) \<noteq> shear_factor (run init [frame_space])"
proof -
  have "sin (1 / 125 :: real) < sin (2 / 125)"
    by (rule sin_small_strict) simp_all
  then show ?thesis
    unfolding run_space run_space_idle by (simp add: shear_factor_def)
qed

subsection \<open>Animation switched on: the tick overwrites the slice parameters\<close>



end
